theory Spec2Isabelle
  imports Main "HOL-Library.Word"
begin

unbundle bit_operations_syntax

section \<open>The STM32 GPIO bank\<close>

text \<open>
  The device of \<^verbatim>\<open>hw/gpio/stm32_gpio.c\<close>. Its state \<open>STM32GPIOState\<close>, declared in
  \<^verbatim>\<open>include/hw/gpio/stm32_gpio.h\<close>, is a record of its \<open>uint32_t\<close> fields. The
  field \<open>in\<close> of the C struct is called \<open>in_val\<close> here, because \<open>in\<close> is a reserved
  word. The bookkeeping members \<open>parent_obj\<close> and \<open>mmio\<close> and the two arrays of line
  handles \<open>input\<close> and \<open>output\<close> hold no register contents; raising the output line of
  pin \<open>i\<close> is recorded as an event instead.
\<close>

type_synonym u8 = "8 word"
type_synonym u32 = "32 word"
type_synonym u64 = "64 word"

record STM32GPIOState =
  moder :: u32
  otyper :: u32
  ospeedr :: u32
  pupdr :: u32
  idr :: u32
  odr :: u32
  lckr :: u32
  aflr :: u32
  afhr :: u32
  in_val :: u32
  in_mask :: u32
  port :: u32
  ngpio :: u32

text \<open>
  What the device sends to its collaborators, in the order of the calls:
  \<open>qemu_log_mask(LOG_GUEST_ERROR, ...)\<close> for a short-circuited pin, for a bad read offset
  and for a bad write offset, and \<open>qemu_set_irq(s->output[i], new_id)\<close>. The trace points
  \<open>trace_stm32_gpio_*\<close> belong to the tracing backend and are not part of the model.
\<close>

datatype event =
    Short_circuit nat
  | Set_irq nat bool
  | Bad_read u64
  | Bad_write u64

subsection \<open>Constants of the header\<close>

definition STM32_GPIO_REG_MODER :: u64 where "STM32_GPIO_REG_MODER = 0x000"
definition STM32_GPIO_REG_OTYPER :: u64 where "STM32_GPIO_REG_OTYPER = 0x004"
definition STM32_GPIO_REG_OSPEEDR :: u64 where "STM32_GPIO_REG_OSPEEDR = 0x008"
definition STM32_GPIO_REG_PUPDR :: u64 where "STM32_GPIO_REG_PUPDR = 0x00C"
definition STM32_GPIO_REG_IDR :: u64 where "STM32_GPIO_REG_IDR = 0x010"
definition STM32_GPIO_REG_ODR :: u64 where "STM32_GPIO_REG_ODR = 0x014"
definition STM32_GPIO_REG_BSRR :: u64 where "STM32_GPIO_REG_BSRR = 0x018"
definition STM32_GPIO_REG_LCKR :: u64 where "STM32_GPIO_REG_LCKR = 0x01C"
definition STM32_GPIO_REG_AFRL :: u64 where "STM32_GPIO_REG_AFRL = 0x020"
definition STM32_GPIO_REG_AFRH :: u64 where "STM32_GPIO_REG_AFRH = 0x024"

definition STM32_GPIO_NPINS :: int where "STM32_GPIO_NPINS = 16"

definition STM32_GPIO_PORT_A :: u32 where "STM32_GPIO_PORT_A = 0"
definition STM32_GPIO_PORT_B :: u32 where "STM32_GPIO_PORT_B = 1"

definition STM32_GPIO_MODE_INPUT :: int where "STM32_GPIO_MODE_INPUT = 0"
definition STM32_GPIO_MODE_OUTPUT :: int where "STM32_GPIO_MODE_OUTPUT = 1"
definition STM32_GPIO_MODE_AF :: int where "STM32_GPIO_MODE_AF = 2"
definition STM32_GPIO_MODE_ANALOG :: int where "STM32_GPIO_MODE_ANALOG = 3"

definition STM32_GPIO_PULL_NONE :: int where "STM32_GPIO_PULL_NONE = 0"
definition STM32_GPIO_PULL_UP :: int where "STM32_GPIO_PULL_UP = 1"
definition STM32_GPIO_PULL_DOWN :: int where "STM32_GPIO_PULL_DOWN = 2"

subsection \<open>Bit-field helpers\<close>

text \<open>
  Modelled from the spec: \<open>extract32\<close>, which the device takes from the header
  \<^verbatim>\<open>qemu/bitops.h\<close>, outside the device's own files. The spec reads
  \<open>extract32(r, i, 1)\<close> as bit \<open>i\<close> of \<open>r\<close> and \<open>extract32(r, i * 2, 2)\<close> as the 2-bit
  field at \<open>i * 2\<close>: the field of the given length that starts at the given bit. The
  spec bounds the pin count by 16, which keeps every field inside the 32 bits of a
  register; past bit 31 the definition reads zeros.
\<close>

definition extract32 :: "u32 \<Rightarrow> nat \<Rightarrow> nat \<Rightarrow> u32" where
  "extract32 v start len = drop_bit start v AND mask len"

text \<open>
  Modelled from the spec: \<open>deposit32\<close>, from the same header. The spec reads
  \<open>deposit32(r, i, 1, b)\<close> as \<open>r\<close> with bit \<open>i\<close> replaced by \<open>b\<close>: the field of the given
  length at the given bit takes the low bits of the new value, and every other bit is
  kept. Past bit 31 nothing is deposited.
\<close>

definition deposit32 :: "u32 \<Rightarrow> nat \<Rightarrow> nat \<Rightarrow> u32 \<Rightarrow> u32" where
  "deposit32 v start len fieldval =
     (v AND NOT (push_bit start (mask len))) OR
     (push_bit start fieldval AND push_bit start (mask len))"

subsection \<open>The resolution engine: \<open>update_state\<close>\<close>

text \<open>
  One iteration of the loop of \<open>update_state\<close> at pin \<open>i\<close>. The locals \<open>prev_id\<close>,
  \<open>new_id\<close>, \<open>od\<close>, \<open>in\<close> and \<open>in_mask\<close> are C \<open>bool\<close>s (an assigned value is true when it
  is not zero), \<open>mode\<close> and \<open>pupd\<close> are \<open>uint8_t\<close>, compared with the enumeration constants
  as integers.
\<close>

definition update_pin :: "STM32GPIOState \<Rightarrow> nat \<Rightarrow> STM32GPIOState \<times> event list" where
  "update_pin s i =
     (let prev_id = (extract32 (idr s) i 1 \<noteq> 0);
          od = (extract32 (odr s) i 1 \<noteq> 0);
          inp = (extract32 (in_val s) i 1 \<noteq> 0);
          in_m = (extract32 (in_mask s) i 1 \<noteq> 0);
          mode = (ucast (extract32 (moder s) (i * 2) 2) :: u8);
          pupd = (ucast (extract32 (pupdr s) (i * 2) 2) :: u8);
          short = (if uint mode = STM32_GPIO_MODE_OUTPUT \<and> in_m
                   then [Short_circuit i] else []);
          new_id = (if in_m then inp
                    else if uint mode = STM32_GPIO_MODE_OUTPUT then od
                    else uint pupd = STM32_GPIO_PULL_UP);
          s' = s\<lparr>idr := deposit32 (idr s) i 1 (of_bool new_id)\<rparr>;
          irq = (if uint mode = STM32_GPIO_MODE_OUTPUT \<and> new_id \<noteq> prev_id
                 then [Set_irq i new_id] else [])
      in (s', short @ irq))"

lemma ngpio_update_pin: "ngpio (fst (update_pin s i)) = ngpio s"
  by (simp add: update_pin_def Let_def)

text \<open>
  The loop \<open>for (size_t i = 0; i < s->ngpio; i++)\<close>, from index \<open>i\<close> on. The bound is
  read from the state at every test, as in the C code.
\<close>

function update_from :: "nat \<Rightarrow> STM32GPIOState \<Rightarrow> STM32GPIOState \<times> event list" where
  "update_from i s =
     (if i < unat (ngpio s)
      then (case update_pin s i of (s1, e1) \<Rightarrow>
             (case update_from (Suc i) s1 of (s2, e2) \<Rightarrow> (s2, e1 @ e2)))
      else (s, []))"
  by pat_completeness auto
termination
  apply (relation "measure (\<lambda>(i, s). unat (ngpio s) - i)")
   apply simp
  apply (metis (no_types, lifting) ngpio_update_pin fst_conv in_measure case_prod_conv
      diff_less_mono2 lessI)
  done

declare update_from.simps [simp del]

definition update_state :: "STM32GPIOState \<Rightarrow> STM32GPIOState \<times> event list" where
  "update_state s = update_from 0 s"

subsection \<open>Register reads and writes\<close>

text \<open>
  \<open>stm32_gpio_read\<close> assigns nothing to the state; the state is returned with the value
  read and the diagnostics, so that this can be stated.
\<close>

definition stm32_gpio_read :: "STM32GPIOState \<Rightarrow> u64 \<Rightarrow> STM32GPIOState \<times> u64 \<times> event list" where
  "stm32_gpio_read s offset =
     (if offset = STM32_GPIO_REG_MODER then (s, ucast (moder s), [])
      else if offset = STM32_GPIO_REG_OTYPER then (s, ucast (otyper s), [])
      else if offset = STM32_GPIO_REG_OSPEEDR then (s, ucast (ospeedr s), [])
      else if offset = STM32_GPIO_REG_PUPDR then (s, ucast (pupdr s), [])
      else if offset = STM32_GPIO_REG_IDR then (s, ucast (idr s), [])
      else if offset = STM32_GPIO_REG_ODR then (s, ucast (odr s), [])
      else if offset = STM32_GPIO_REG_BSRR then (s, 0, [])
      else if offset = STM32_GPIO_REG_LCKR then (s, ucast (lckr s), [])
      else if offset = STM32_GPIO_REG_AFRL then (s, ucast (aflr s), [])
      else if offset = STM32_GPIO_REG_AFRH then (s, ucast (afhr s), [])
      else (s, 0, [Bad_read offset]))"

text \<open>
  The \<open>switch\<close> of \<open>stm32_gpio_write\<close>: the assignment of the \<open>uint64_t value\<close> to a
  \<open>uint32_t\<close> field truncates it. In the BSRR case the two compound assignments are
  computed in 64 bits (the type of \<open>value\<close>) and truncated on assignment.
\<close>

definition write_switch :: "STM32GPIOState \<Rightarrow> u64 \<Rightarrow> u64 \<Rightarrow> STM32GPIOState \<times> event list" where
  "write_switch s offset val =
     (if offset = STM32_GPIO_REG_MODER then (s\<lparr>moder := ucast val\<rparr>, [])
      else if offset = STM32_GPIO_REG_OTYPER then (s\<lparr>otyper := ucast val\<rparr>, [])
      else if offset = STM32_GPIO_REG_OSPEEDR then (s\<lparr>ospeedr := ucast val\<rparr>, [])
      else if offset = STM32_GPIO_REG_PUPDR then (s\<lparr>pupdr := ucast val\<rparr>, [])
      else if offset = STM32_GPIO_REG_IDR then (s, [])
      else if offset = STM32_GPIO_REG_ODR then (s\<lparr>odr := ucast val\<rparr>, [])
      else if offset = STM32_GPIO_REG_BSRR then
        (let s1 = s\<lparr>odr := ucast ((ucast (odr s) :: u64) AND NOT (drop_bit 16 val AND 0xFFFF))\<rparr>;
             s2 = s1\<lparr>odr := ucast ((ucast (odr s1) :: u64) OR (val AND 0xFFFF))\<rparr>
         in (s2, []))
      else if offset = STM32_GPIO_REG_LCKR then (s\<lparr>lckr := ucast val\<rparr>, [])
      else if offset = STM32_GPIO_REG_AFRL then (s\<lparr>aflr := ucast val\<rparr>, [])
      else if offset = STM32_GPIO_REG_AFRH then (s\<lparr>afhr := ucast val\<rparr>, [])
      else (s, [Bad_write offset]))"

definition stm32_gpio_write :: "STM32GPIOState \<Rightarrow> u64 \<Rightarrow> u64 \<Rightarrow> STM32GPIOState \<times> event list" where
  "stm32_gpio_write s offset val =
     (case write_switch s offset val of (s1, e1) \<Rightarrow>
        (case update_state s1 of (s2, e2) \<Rightarrow> (s2, e1 @ e2)))"

subsection \<open>The external-signal entry point and reset\<close>

text \<open>
  \<open>stm32_gpio_set\<close>: a failed \<open>assert\<close> aborts the program, which is the result \<open>None\<close>.
\<close>

definition stm32_gpio_set :: "STM32GPIOState \<Rightarrow> int \<Rightarrow> int \<Rightarrow> (STM32GPIOState \<times> event list) option" where
  "stm32_gpio_set s line val =
     (if \<not> (line \<ge> 0 \<and> line < STM32_GPIO_NPINS) then None
      else
        (let s1 = s\<lparr>in_mask := deposit32 (in_mask s) (nat line) 1 (of_bool (val \<ge> 0))\<rparr>;
             s2 = (if val \<ge> 0
                   then s1\<lparr>in_val := deposit32 (in_val s1) (nat line) 1 (of_bool (val \<noteq> 0))\<rparr>
                   else s1)
         in Some (update_state s2)))"

text \<open>\<open>stm32_gpio_reset\<close>, assignment by assignment, in the order of the source.\<close>

definition stm32_gpio_reset :: "STM32GPIOState \<Rightarrow> STM32GPIOState" where
  "stm32_gpio_reset s =
     (let s1 = (if port s = STM32_GPIO_PORT_A
                then s\<lparr>odr := 0xA8000000, ospeedr := 0, pupdr := 0x64000000\<rparr>
                else if port s = STM32_GPIO_PORT_B
                then s\<lparr>odr := 0x00000280, ospeedr := 0x000000C0, pupdr := 0x00000100\<rparr>
                else s\<lparr>odr := 0, ospeedr := 0, pupdr := 0\<rparr>)
      in s1\<lparr>otyper := 0, idr := 0, odr := 0, lckr := 0, aflr := 0, afhr := 0,
             in_val := 0, in_mask := 0\<rparr>)"

subsection \<open>Notions of the specification\<close>

text \<open>
  The following definitions do not come from the C code. They follow the words of the
  specification, and the code is compared with them: a configuration register is an
  ordered sequence of 2-bit fields, one per pin, and the resolved level of a pin is a
  function of MODER, PUPDR, ODR and the two external drive vectors.
\<close>

definition spec_field :: "u32 \<Rightarrow> nat \<Rightarrow> nat" where
  "spec_field r i = (unat r div 4 ^ i) mod 4"

definition spec_resolve :: "u32 \<Rightarrow> u32 \<Rightarrow> u32 \<Rightarrow> u32 \<Rightarrow> u32 \<Rightarrow> nat \<Rightarrow> bool" where
  "spec_resolve MODER PUPDR ODR IN IN_MASK i =
     (if bit IN_MASK i then bit IN i
      else if spec_field MODER i = 1 then bit ODR i
      else spec_field PUPDR i = 1)"

abbreviation resolved :: "STM32GPIOState \<Rightarrow> nat \<Rightarrow> bool" where
  "resolved s i \<equiv> spec_resolve (moder s) (pupdr s) (odr s) (in_val s) (in_mask s) i"

text \<open>The number of output-changed notifications for pin \<open>i\<close> in a list of events.\<close>

fun is_irq_of :: "nat \<Rightarrow> event \<Rightarrow> bool" where
  "is_irq_of i (Set_irq j b) = (j = i)"
| "is_irq_of i _ = False"

definition irq_count :: "nat \<Rightarrow> event list \<Rightarrow> nat" where
  "irq_count i evs = length (filter (is_irq_of i) evs)"

text \<open>The ten register offsets of the address map.\<close>

definition valid_offset :: "u64 \<Rightarrow> bool" where
  "valid_offset offset =
     (offset = STM32_GPIO_REG_MODER \<or> offset = STM32_GPIO_REG_OTYPER \<or>
      offset = STM32_GPIO_REG_OSPEEDR \<or> offset = STM32_GPIO_REG_PUPDR \<or>
      offset = STM32_GPIO_REG_IDR \<or> offset = STM32_GPIO_REG_ODR \<or>
      offset = STM32_GPIO_REG_BSRR \<or> offset = STM32_GPIO_REG_LCKR \<or>
      offset = STM32_GPIO_REG_AFRL \<or> offset = STM32_GPIO_REG_AFRH)"

text \<open>
  The state in which \<open>stm32_gpio_set\<close> calls \<open>update_state\<close>: the two \<open>deposit32\<close>
  assignments of that function, on their own.
\<close>

definition drive :: "STM32GPIOState \<Rightarrow> int \<Rightarrow> int \<Rightarrow> STM32GPIOState" where
  "drive s line val =
     (let s1 = s\<lparr>in_mask := deposit32 (in_mask s) (nat line) 1 (of_bool (val \<ge> 0))\<rparr>
      in if val \<ge> 0
         then s1\<lparr>in_val := deposit32 (in_val s1) (nat line) 1 (of_bool (val \<noteq> 0))\<rparr>
         else s1)"

subsection \<open>Sample states\<close>

text \<open>
  An instance as it is created, all registers zero, with its two configuration fields;
  the same with pin 0 as an output driven high; port A right after reset; port A with pin 0
  configured as an output before a reset; and a bank of eight pins.
\<close>

definition fresh_instance :: "u32 \<Rightarrow> u32 \<Rightarrow> STM32GPIOState" where
  "fresh_instance p n =
     \<lparr>moder = 0, otyper = 0, ospeedr = 0, pupdr = 0, idr = 0, odr = 0, lckr = 0,
      aflr = 0, afhr = 0, in_val = 0, in_mask = 0, port = p, ngpio = n\<rparr>"

definition demo_state :: STM32GPIOState where
  "demo_state = (fresh_instance STM32_GPIO_PORT_A 16)\<lparr>moder := 1, odr := 1\<rparr>"

definition after_reset_a :: STM32GPIOState where
  "after_reset_a = stm32_gpio_reset (fresh_instance STM32_GPIO_PORT_A 16)"

definition dirty_port_a :: STM32GPIOState where
  "dirty_port_a = (fresh_instance STM32_GPIO_PORT_A 16)\<lparr>moder := 1\<rparr>"

definition small_bank :: STM32GPIOState where
  "small_bank = fresh_instance STM32_GPIO_PORT_A 8"

definition analog_state :: STM32GPIOState where
  "analog_state = (fresh_instance STM32_GPIO_PORT_A 16)\<lparr>moder := 3, pupdr := 3\<rparr>"

section \<open>Properties of the model\<close>

subsection \<open>Bits and fields\<close>

lemmas reg_offsets =
  STM32_GPIO_REG_MODER_def STM32_GPIO_REG_OTYPER_def STM32_GPIO_REG_OSPEEDR_def
  STM32_GPIO_REG_PUPDR_def STM32_GPIO_REG_IDR_def STM32_GPIO_REG_ODR_def
  STM32_GPIO_REG_BSRR_def STM32_GPIO_REG_LCKR_def STM32_GPIO_REG_AFRL_def
  STM32_GPIO_REG_AFRH_def

lemma extract32_bit: "(extract32 v i (Suc 0) \<noteq> 0) = bit v i"
  by (simp add: extract32_def bit_iff_odd_drop_bit and_one_eq mod_2_eq_odd)

lemma deposit32_bit:
  "bit (deposit32 v i (Suc 0) w) j = (if j = i \<and> i < 32 then bit w 0 else bit v j)"
  by (auto simp add: deposit32_def bit_simps dest: bit_imp_le_length)

lemma extract32_field: "uint (ucast (extract32 v (i * 2) 2) :: u8) = int (spec_field v i)"
proof -
  have "unat (take_bit 2 (drop_bit (i * 2) v)) = take_bit 2 (drop_bit (i * 2) (unat v))"
    by (simp add: unsigned_take_bit_eq unat_drop_bit_eq)
  also have "\<dots> = (unat v div 2 ^ (i * 2)) mod 2 ^ 2"
    by (simp add: take_bit_eq_mod drop_bit_eq_div)
  also have "(2::nat) ^ (i * 2) = 4 ^ i"
    by (simp add: mult.commute [of i 2] power_mult)
  finally have u: "unat (extract32 v (i * 2) 2) = spec_field v i"
    by (simp add: extract32_def spec_field_def flip: take_bit_eq_mask)
  have "spec_field v i < 4" by (simp add: spec_field_def)
  then have "unat (ucast (extract32 v (i * 2) 2) :: u8) = spec_field v i"
    using u by (simp add: unsigned_ucast_eq take_bit_nat_eq_self)
  then show ?thesis by (simp only: uint_nat)
qed

lemma mode_output_iff:
  "(uint (ucast (extract32 v (i * 2) 2) :: u8) = STM32_GPIO_MODE_OUTPUT) = (spec_field v i = 1)"
  by (simp add: extract32_field STM32_GPIO_MODE_OUTPUT_def)

lemma pull_up_iff:
  "(uint (ucast (extract32 v (i * 2) 2) :: u8) = STM32_GPIO_PULL_UP) = (spec_field v i = 1)"
  by (simp add: extract32_field STM32_GPIO_PULL_UP_def)

lemma spec_field_high: "16 \<le> i \<Longrightarrow> spec_field v i = 0"
proof -
  assume "16 \<le> i"
  then have "(4::nat) ^ 16 \<le> 4 ^ i" by (rule power_increasing) simp
  moreover have "unat v < 2 ^ 32" using unsigned_less [of v] by simp
  ultimately have "unat v < 4 ^ i" by simp
  then show ?thesis by (simp add: spec_field_def)
qed

lemma resolved_high: "32 \<le> i \<Longrightarrow> \<not> spec_resolve m p od iv im i"
  by (auto simp add: spec_resolve_def spec_field_high dest: bit_imp_le_length)

subsection \<open>One pin, then the loop\<close>

lemma update_pin_eq:
  "update_pin s i =
     (s\<lparr>idr := deposit32 (idr s) i 1 (of_bool (resolved s i))\<rparr>,
      (if spec_field (moder s) i = 1 \<and> bit (in_mask s) i then [Short_circuit i] else []) @
      (if spec_field (moder s) i = 1 \<and> resolved s i \<noteq> bit (idr s) i
       then [Set_irq i (resolved s i)] else []))"
  by (simp add: update_pin_def Let_def extract32_bit mode_output_iff pull_up_iff spec_resolve_def)

lemma idr_update_pin:
  "bit (idr (fst (update_pin s i))) j = (if j = i then resolved s i else bit (idr s) j)"
  using resolved_high [of i]
  by (auto simp add: update_pin_eq deposit32_bit not_less dest: bit_imp_le_length)

lemma frame_update_pin: "(fst (update_pin s i))\<lparr>idr := w\<rparr> = s\<lparr>idr := w\<rparr>"
  by (simp add: update_pin_eq)

lemma update_from_step:
  "i < unat (ngpio s) \<Longrightarrow>
   update_from i s =
     (fst (update_from (Suc i) (fst (update_pin s i))),
      snd (update_pin s i) @ snd (update_from (Suc i) (fst (update_pin s i))))"
  by (simp add: update_from.simps [of i s] split: prod.splits)

lemma update_from_stop: "\<not> i < unat (ngpio s) \<Longrightarrow> update_from i s = (s, [])"
  by (simp add: update_from.simps [of i s])

lemma update_from_induct:
  assumes "\<And>i s. (i < unat (ngpio s) \<Longrightarrow> P (Suc i) (fst (update_pin s i))) \<Longrightarrow> P i s"
  shows "P i s"
proof (induction i s rule: update_from.induct)
  case (1 i s)
  show ?case
  proof (rule assms)
    assume lt: "i < unat (ngpio s)"
    show "P (Suc i) (fst (update_pin s i))"
      by (rule "1.IH" [OF lt, of _ "snd (update_pin s i)"]) simp
  qed
qed

lemma frame_update_from: "(fst (update_from i s))\<lparr>idr := w\<rparr> = s\<lparr>idr := w\<rparr>"
proof (induction i s rule: update_from_induct)
  case (1 i s)
  show ?case
  proof (cases "i < unat (ngpio s)")
    case True
    then show ?thesis
      using "1" [OF True] frame_update_pin [where s = s and i = i and w = w]
      by (simp add: update_from_step)
  next
    case False
    then show ?thesis by (simp add: update_from_stop)
  qed
qed

lemma resolved_frame:
  assumes "s'\<lparr>idr := w\<rparr> = s\<lparr>idr := w\<rparr>"
  shows "resolved s' j = resolved s j" and "ngpio s' = ngpio s"
proof -
  have "moder (s'\<lparr>idr := w\<rparr>) = moder (s\<lparr>idr := w\<rparr>)"
       "pupdr (s'\<lparr>idr := w\<rparr>) = pupdr (s\<lparr>idr := w\<rparr>)"
       "odr (s'\<lparr>idr := w\<rparr>) = odr (s\<lparr>idr := w\<rparr>)"
       "in_val (s'\<lparr>idr := w\<rparr>) = in_val (s\<lparr>idr := w\<rparr>)"
       "in_mask (s'\<lparr>idr := w\<rparr>) = in_mask (s\<lparr>idr := w\<rparr>)"
       "ngpio (s'\<lparr>idr := w\<rparr>) = ngpio (s\<lparr>idr := w\<rparr>)"
    by (simp_all only: assms)
  then show "resolved s' j = resolved s j" and "ngpio s' = ngpio s" by simp_all
qed

lemma idr_update_from:
  "bit (idr (fst (update_from i s))) j =
     (if i \<le> j \<and> j < unat (ngpio s) then resolved s j else bit (idr s) j)"
proof (induction i s rule: update_from_induct)
  case (1 i s)
  show ?case
  proof (cases "i < unat (ngpio s)")
    case True
    let ?s1 = "fst (update_pin s i)"
    have r: "resolved ?s1 j = resolved s j" and n: "ngpio ?s1 = ngpio s"
      using resolved_frame [OF frame_update_pin [where s = s and i = i and w = 0]] by simp_all
    show ?thesis
      using "1" [OF True] True r n idr_update_pin [of s i j]
      by (auto simp add: update_from_step)
  next
    case False
    then show ?thesis by (auto simp add: update_from_stop)
  qed
qed

lemma irq_count_update_pin:
  "irq_count j (snd (update_pin s i)) \<le> (if j = i then 1 else 0)"
  by (simp add: update_pin_eq irq_count_def)

lemma irq_count_update_from:
  "irq_count j (snd (update_from i s)) \<le> (if i \<le> j then 1 else 0)"
proof (induction i s rule: update_from_induct)
  case (1 i s)
  show ?case
  proof (cases "i < unat (ngpio s)")
    case True
    have a: "irq_count j (snd (update_pin s i)) \<le> (if j = i then 1 else 0)"
      by (rule irq_count_update_pin)
    have "irq_count j (snd (update_from i s)) =
          irq_count j (snd (update_pin s i)) +
          irq_count j (snd (update_from (Suc i) (fst (update_pin s i))))"
      using True by (simp add: update_from_step irq_count_def)
    then show ?thesis
      using "1" [OF True] a by (auto split: if_splits)
  next
    case False
    then show ?thesis by (simp add: update_from_stop irq_count_def)
  qed
qed

text \<open>A state whose IDR already holds the resolved levels is a fixed point.\<close>

lemma update_pin_consistent:
  assumes "resolved s i = bit (idr s) i"
  shows "fst (update_pin s i) = s" and "irq_count k (snd (update_pin s i)) = 0"
proof -
  have "deposit32 (idr s) i (Suc 0) (of_bool (resolved s i)) = idr s"
    by (rule bit_eqI) (auto simp add: deposit32_bit assms)
  then show "fst (update_pin s i) = s" by (simp add: update_pin_eq)
  show "irq_count k (snd (update_pin s i)) = 0"
    by (simp add: update_pin_eq irq_count_def assms)
qed

lemma update_from_consistent:
  "(\<And>j. i \<le> j \<Longrightarrow> j < unat (ngpio s) \<Longrightarrow> resolved s j = bit (idr s) j) \<Longrightarrow>
   fst (update_from i s) = s \<and> irq_count k (snd (update_from i s)) = 0"
proof (induction i s rule: update_from_induct)
  case (1 i s)
  show ?case
  proof (cases "i < unat (ngpio s)")
    case True
    have c: "resolved s i = bit (idr s) i" using "1.prems" [of i] True by simp
    have f: "fst (update_pin s i) = s" and z: "irq_count k (snd (update_pin s i)) = 0"
      using update_pin_consistent [OF c] by simp_all
    have "fst (update_from (Suc i) s) = s \<and> irq_count k (snd (update_from (Suc i) s)) = 0"
      using "1.IH" [OF True] "1.prems" f by simp
    then show ?thesis
      using True f z by (simp add: update_from_step irq_count_def)
  next
    case False
    then show ?thesis by (simp add: update_from_stop irq_count_def)
  qed
qed

lemma moder_update_pin: "moder (fst (update_pin s i)) = moder s"
  by (simp add: update_pin_eq)

lemma events_update_from:
  "e \<in> set (snd (update_from k s)) \<Longrightarrow>
   \<exists>j. k \<le> j \<and> j < unat (ngpio s) \<and> spec_field (moder s) j = 1 \<and>
       (e = Short_circuit j \<or> (\<exists>b. e = Set_irq j b))"
proof (induction k s rule: update_from_induct)
  case (1 k s)
  show ?case
  proof (cases "k < unat (ngpio s)")
    case True
    let ?s1 = "fst (update_pin s k)"
    from "1.prems" True
    consider "e \<in> set (snd (update_pin s k))" | "e \<in> set (snd (update_from (Suc k) ?s1))"
      by (auto simp add: update_from_step)
    then show ?thesis
    proof cases
      case 1
      then have "spec_field (moder s) k = 1 \<and> (e = Short_circuit k \<or> (\<exists>b. e = Set_irq k b))"
        by (auto simp add: update_pin_eq split: if_splits)
      with True show ?thesis by blast
    next
      case 2
      from "1.IH" [OF True 2] obtain j where
        "Suc k \<le> j" "j < unat (ngpio ?s1)" "spec_field (moder ?s1) j = 1"
        "e = Short_circuit j \<or> (\<exists>b. e = Set_irq j b)" by blast
      then have "k \<le> j \<and> j < unat (ngpio s) \<and> spec_field (moder s) j = 1 \<and>
          (e = Short_circuit j \<or> (\<exists>b. e = Set_irq j b))"
        by (simp add: ngpio_update_pin moder_update_pin)
      then show ?thesis by blast
    qed
  next
    case False
    with "1.prems" show ?thesis by (simp add: update_from_stop)
  qed
qed

subsection \<open>A whole run of \<open>update_state\<close>\<close>

lemma fields_update_state:
  "moder (fst (update_state s)) = moder s"
  "otyper (fst (update_state s)) = otyper s"
  "ospeedr (fst (update_state s)) = ospeedr s"
  "pupdr (fst (update_state s)) = pupdr s"
  "odr (fst (update_state s)) = odr s"
  "lckr (fst (update_state s)) = lckr s"
  "aflr (fst (update_state s)) = aflr s"
  "afhr (fst (update_state s)) = afhr s"
  "in_val (fst (update_state s)) = in_val s"
  "in_mask (fst (update_state s)) = in_mask s"
  "port (fst (update_state s)) = port s"
  "ngpio (fst (update_state s)) = ngpio s"
proof -
  have f: "(fst (update_from 0 s))\<lparr>idr := 0\<rparr> = s\<lparr>idr := 0\<rparr>"
    by (rule frame_update_from)
  have "moder ((fst (update_from 0 s))\<lparr>idr := 0\<rparr>) = moder (s\<lparr>idr := 0\<rparr>)"
       "otyper ((fst (update_from 0 s))\<lparr>idr := 0\<rparr>) = otyper (s\<lparr>idr := 0\<rparr>)"
       "ospeedr ((fst (update_from 0 s))\<lparr>idr := 0\<rparr>) = ospeedr (s\<lparr>idr := 0\<rparr>)"
       "pupdr ((fst (update_from 0 s))\<lparr>idr := 0\<rparr>) = pupdr (s\<lparr>idr := 0\<rparr>)"
       "odr ((fst (update_from 0 s))\<lparr>idr := 0\<rparr>) = odr (s\<lparr>idr := 0\<rparr>)"
       "lckr ((fst (update_from 0 s))\<lparr>idr := 0\<rparr>) = lckr (s\<lparr>idr := 0\<rparr>)"
       "aflr ((fst (update_from 0 s))\<lparr>idr := 0\<rparr>) = aflr (s\<lparr>idr := 0\<rparr>)"
       "afhr ((fst (update_from 0 s))\<lparr>idr := 0\<rparr>) = afhr (s\<lparr>idr := 0\<rparr>)"
       "in_val ((fst (update_from 0 s))\<lparr>idr := 0\<rparr>) = in_val (s\<lparr>idr := 0\<rparr>)"
       "in_mask ((fst (update_from 0 s))\<lparr>idr := 0\<rparr>) = in_mask (s\<lparr>idr := 0\<rparr>)"
       "port ((fst (update_from 0 s))\<lparr>idr := 0\<rparr>) = port (s\<lparr>idr := 0\<rparr>)"
       "ngpio ((fst (update_from 0 s))\<lparr>idr := 0\<rparr>) = ngpio (s\<lparr>idr := 0\<rparr>)"
    by (simp_all only: f)
  then show
  "moder (fst (update_state s)) = moder s"
  "otyper (fst (update_state s)) = otyper s"
  "ospeedr (fst (update_state s)) = ospeedr s"
  "pupdr (fst (update_state s)) = pupdr s"
  "odr (fst (update_state s)) = odr s"
  "lckr (fst (update_state s)) = lckr s"
  "aflr (fst (update_state s)) = aflr s"
  "afhr (fst (update_state s)) = afhr s"
  "in_val (fst (update_state s)) = in_val s"
  "in_mask (fst (update_state s)) = in_mask s"
  "port (fst (update_state s)) = port s"
  "ngpio (fst (update_state s)) = ngpio s"
    by (simp_all add: update_state_def)
qed

lemma update_state_fixed:
  assumes "\<And>j. j < unat (ngpio s) \<Longrightarrow> bit (idr s) j = resolved s j"
  shows "fst (update_state s) = s" and "irq_count k (snd (update_state s)) = 0"
  using update_from_consistent [of 0 s k] assms by (simp_all add: update_state_def)

lemma update_state_consistent:
  "i < unat (ngpio s) \<Longrightarrow>
   bit (idr (fst (update_state s))) i = resolved (fst (update_state s)) i \<and>
   ngpio (fst (update_state s)) = ngpio s"
proof -
  assume i: "i < unat (ngpio s)"
  have f: "(fst (update_from 0 s))\<lparr>idr := 0\<rparr> = s\<lparr>idr := 0\<rparr>"
    by (rule frame_update_from)
  have "resolved (fst (update_from 0 s)) i = resolved s i" and "ngpio (fst (update_from 0 s)) = ngpio s"
    using resolved_frame [OF f] by simp_all
  then show ?thesis
    using i by (simp add: update_state_def idr_update_from)
qed

subsection \<open>Writes and external signals\<close>

lemma frame_write_switch:
  "ngpio (fst (write_switch s offset val)) = ngpio s"
  by (simp add: write_switch_def Let_def)

lemma write_eq:
  "stm32_gpio_write s offset val =
     (fst (update_state (fst (write_switch s offset val))),
      snd (write_switch s offset val) @ snd (update_state (fst (write_switch s offset val))))"
  by (simp add: stm32_gpio_write_def split: prod.splits)

lemma set_eq:
  "stm32_gpio_set s line val =
     (if 0 \<le> line \<and> line < 16 then Some (update_state (drive s line val)) else None)"
  by (simp add: stm32_gpio_set_def drive_def Let_def STM32_GPIO_NPINS_def)

lemma ngpio_drive: "ngpio (drive s line val) = ngpio s"
  by (simp add: drive_def Let_def)

lemma mask16_u64: "(0xFFFF :: u64) = mask 16"
  by (simp add: mask_eq_exp_minus_1)

lemma mask16_u32: "(0xFFFF :: u32) = mask 16"
  by (simp add: mask_eq_exp_minus_1)

lemma bsrr_bits:
  "bit (odr (fst (stm32_gpio_write s STM32_GPIO_REG_BSRR val))) n =
     (n < 16 \<and> bit val n \<or> bit (odr s) n \<and> \<not> (n < 16 \<and> bit val (n + 16)))"
proof -
  define hi :: u64 where "hi = drop_bit 16 val AND 0xFFFF"
  define lo :: u64 where "lo = val AND 0xFFFF"
  have e: "odr (fst (stm32_gpio_write s STM32_GPIO_REG_BSRR val)) =
           ucast ((ucast (ucast ((ucast (odr s) :: u64) AND NOT hi) :: u32) :: u64) OR lo)"
    by (simp add: write_eq fields_update_state write_switch_def reg_offsets Let_def hi_def lo_def)
  have hi: "bit hi k = (k < 16 \<and> bit val (k + 16))" for k
    unfolding hi_def mask16_u64 by (auto simp add: bit_simps ac_simps)
  have lo: "bit lo k = (k < 16 \<and> bit val k)" for k
    unfolding lo_def mask16_u64 by (auto simp add: bit_simps)
  show ?thesis
    unfolding e by (auto simp add: bit_simps hi lo dest: bit_imp_le_length)
qed

lemma after_reset_a_eq:
  "after_reset_a = (fresh_instance STM32_GPIO_PORT_A 16)\<lparr>pupdr := 0x64000000\<rparr>"
  by (simp add: after_reset_a_def stm32_gpio_reset_def fresh_instance_def)

section \<open>The claims\<close>

subsection \<open>Resolution of one pin\<close>

text \<open>
  Claim C1. For every pin \<open>i < ngpio\<close>, one run of the resolution engine sets bit \<open>i\<close> of
  IDR to the external drive bit \<open>in[i]\<close> if \<open>in_mask[i]\<close> is set; else to \<open>ODR[i]\<close> if the
  2-bit MODER field of the pin is OUTPUT; else to 1 exactly when the 2-bit PUPDR field of
  the pin is \<open>PULL_UP\<close>. The external drive is tested first, so it wins also over a pin in
  OUTPUT mode, and NONE and \<open>PULL_DOWN\<close> both give 0.
\<close>

theorem update_state_resolves_pin:
  "i < unat (ngpio s) \<Longrightarrow>
   bit (idr (fst (update_state s))) i =
     (if bit (in_mask s) i then bit (in_val s) i
      else if int (spec_field (moder s) i) = STM32_GPIO_MODE_OUTPUT then bit (odr s) i
      else int (spec_field (pupdr s) i) = STM32_GPIO_PULL_UP)"
  by (simp add: update_state_def idr_update_from spec_resolve_def
      STM32_GPIO_MODE_OUTPUT_def STM32_GPIO_PULL_UP_def)

text \<open>Pin 0 of the sample state is an output driven high: its IDR bit becomes 1.\<close>

theorem update_state_resolves_pin_witness:
  "(0::nat) < unat (ngpio demo_state) \<and> bit (idr (fst (update_state demo_state))) 0"
  using update_state_resolves_pin [of 0 demo_state]
  by (simp add: demo_state_def fresh_instance_def spec_field_def STM32_GPIO_MODE_OUTPUT_def)

subsection \<open>IDR after a write and after an external signal\<close>

text \<open>
  Claim C2. After every register write, to any offset (the read-only IDR offset and the
  invalid offsets included), and after every call of \<open>stm32_gpio_set\<close> that returns, bit
  \<open>i\<close> of IDR equals the resolution function applied to the current MODER, PUPDR, ODR,
  \<open>in\<close> and \<open>in_mask\<close>, for every pin \<open>i < ngpio\<close>.
\<close>

theorem idr_consistent_after_access:
  "i < unat (ngpio s) \<Longrightarrow>
   (let s' = fst (stm32_gpio_write s offset val)
    in ngpio s' = ngpio s \<and>
       bit (idr s') i = spec_resolve (moder s') (pupdr s') (odr s') (in_val s') (in_mask s') i) \<and>
   (\<forall>s' evs. stm32_gpio_set s line v = Some (s', evs) \<longrightarrow>
       ngpio s' = ngpio s \<and>
       bit (idr s') i = spec_resolve (moder s') (pupdr s') (odr s') (in_val s') (in_mask s') i)"
proof (intro conjI allI impI)
  assume i: "i < unat (ngpio s)"
  let ?s1 = "fst (write_switch s offset val)"
  have "i < unat (ngpio ?s1)" using i by (simp add: frame_write_switch)
  from update_state_consistent [OF this]
  show "let s' = fst (stm32_gpio_write s offset val)
    in ngpio s' = ngpio s \<and>
       bit (idr s') i = spec_resolve (moder s') (pupdr s') (odr s') (in_val s') (in_mask s') i"
    by (simp add: write_eq frame_write_switch Let_def)
next
  fix s' evs
  assume i: "i < unat (ngpio s)" and r: "stm32_gpio_set s line v = Some (s', evs)"
  define s2 where "s2 = drive s line v"
  have s2: "ngpio s2 = ngpio s" and u: "update_state s2 = (s', evs)"
    using r by (simp_all add: s2_def ngpio_drive set_eq split: if_splits)
  have "i < unat (ngpio s2)" using i s2 by simp
  from update_state_consistent [OF this] u s2
  show "ngpio s' = ngpio s"
    and "bit (idr s') i = spec_resolve (moder s') (pupdr s') (odr s') (in_val s') (in_mask s') i"
    by simp_all
qed

text \<open>
  On the sample state, writing a pull-up for pin 0 leaves its IDR bit at the output level
  1, and an external line that drives pin 0 low brings it to 0.
\<close>

theorem idr_consistent_after_access_witness:
  "(0::nat) < unat (ngpio demo_state) \<and>
   bit (idr (fst (stm32_gpio_write demo_state STM32_GPIO_REG_PUPDR 1))) 0 \<and>
   stm32_gpio_set demo_state 0 0 \<noteq> None \<and>
   \<not> bit (idr (fst (the (stm32_gpio_set demo_state 0 0)))) 0"
proof -
  have n: "(0::nat) < unat (ngpio demo_state)"
    by (simp add: demo_state_def fresh_instance_def)
  obtain s' evs where s: "stm32_gpio_set demo_state 0 0 = Some (s', evs)"
    by (cases "update_state (drive demo_state 0 0)") (simp add: set_eq)
  have s': "s' = fst (update_state (drive demo_state 0 0))" using s by (simp add: set_eq)
  have w: "fst (stm32_gpio_write demo_state STM32_GPIO_REG_PUPDR 1)
      = fst (update_state (demo_state\<lparr>pupdr := 1\<rparr>))"
    by (simp add: write_eq write_switch_def reg_offsets)
  from idr_consistent_after_access [OF n, of STM32_GPIO_REG_PUPDR 1 0 0] s
  have a: "bit (idr (fst (stm32_gpio_write demo_state STM32_GPIO_REG_PUPDR 1))) 0 =
        resolved (fst (stm32_gpio_write demo_state STM32_GPIO_REG_PUPDR 1)) 0"
    and b: "bit (idr s') 0 = resolved s' 0"
    by (simp_all add: Let_def)
  have "resolved (fst (stm32_gpio_write demo_state STM32_GPIO_REG_PUPDR 1)) 0"
    unfolding w by (simp add: fields_update_state demo_state_def fresh_instance_def
        spec_resolve_def spec_field_def)
  moreover have "\<not> resolved s' 0"
    unfolding s' by (simp add: fields_update_state demo_state_def fresh_instance_def
        spec_resolve_def spec_field_def drive_def deposit32_bit)
  ultimately show ?thesis using n a b s by simp
qed

subsection \<open>The set/reset register\<close>

text \<open>
  Claim C3. For every prior ODR and every value written to the BSRR offset, the new ODR is
  the old one with the bits named by bits 16 to 31 of the value cleared first and bits 0
  to 15 of the value set afterwards. When the set bit and the reset bit of one pin are
  both 1 in the same write, the ODR bit of that pin ends up 1.
\<close>

theorem bsrr_clear_then_set:
  "odr (fst (stm32_gpio_write s STM32_GPIO_REG_BSRR val)) =
     (odr s AND NOT (ucast (drop_bit 16 val) AND 0xFFFF)) OR (ucast val AND 0xFFFF) \<and>
   (\<forall>n < 16. bit val n \<and> bit val (n + 16) \<longrightarrow>
      bit (odr (fst (stm32_gpio_write s STM32_GPIO_REG_BSRR val))) n)"
proof
  show "odr (fst (stm32_gpio_write s STM32_GPIO_REG_BSRR val)) =
     (odr s AND NOT (ucast (drop_bit 16 val) AND 0xFFFF)) OR (ucast val AND 0xFFFF)"
    unfolding mask16_u32
    by (rule bit_eqI) (auto simp add: bsrr_bits bit_simps ac_simps dest: bit_imp_le_length)
  show "\<forall>n < 16. bit val n \<and> bit val (n + 16) \<longrightarrow>
      bit (odr (fst (stm32_gpio_write s STM32_GPIO_REG_BSRR val))) n"
    by (simp add: bsrr_bits)
qed

text \<open>Writing \<open>0x10001\<close>, set and reset of pin 0 at once, gives ODR the value 1.\<close>

theorem bsrr_clear_then_set_witness:
  "odr (fst (stm32_gpio_write demo_state STM32_GPIO_REG_BSRR 0x10001)) = 1 \<and>
   bit (odr (fst (stm32_gpio_write (fresh_instance 0 16) STM32_GPIO_REG_BSRR 0x10001))) 0"
  using bsrr_clear_then_set [of demo_state "0x10001"]
    bsrr_clear_then_set [of "fresh_instance 0 16" "0x10001"]
  by (simp add: demo_state_def fresh_instance_def)

subsection \<open>Accesses outside the address map\<close>

text \<open>
  Claim C4, as amended. For every offset outside the ten register offsets, a read returns
  0, emits one malformed-access diagnostic and leaves the state unchanged. A write to such
  an offset emits one malformed-access diagnostic and then runs the resolution engine, as
  every write does: every field other than IDR is unchanged, the IDR bits of the pins
  below \<open>ngpio\<close> are resolved again, and the whole state is unchanged when IDR already
  held the resolved levels.
\<close>

theorem invalid_offset_access:
  "\<not> valid_offset offset \<Longrightarrow>
   stm32_gpio_read s offset = (s, 0, [Bad_read offset]) \<and>
   stm32_gpio_write s offset val =
     (fst (update_state s), Bad_write offset # snd (update_state s)) \<and>
   (fst (stm32_gpio_write s offset val))\<lparr>idr := idr s\<rparr> = s \<and>
   (\<forall>i < unat (ngpio s). bit (idr (fst (stm32_gpio_write s offset val))) i = resolved s i) \<and>
   ((\<forall>i < unat (ngpio s). bit (idr s) i = resolved s i) \<longrightarrow>
      fst (stm32_gpio_write s offset val) = s)"
proof -
  assume "\<not> valid_offset offset"
  then have r: "stm32_gpio_read s offset = (s, 0, [Bad_read offset])"
    and w: "write_switch s offset val = (s, [Bad_write offset])"
    by (simp_all add: valid_offset_def stm32_gpio_read_def write_switch_def)
  have w': "stm32_gpio_write s offset val =
     (fst (update_state s), Bad_write offset # snd (update_state s))"
    by (simp add: write_eq w)
  have "(fst (update_from 0 s))\<lparr>idr := idr s\<rparr> = s\<lparr>idr := idr s\<rparr>"
    by (rule frame_update_from)
  then have f: "(fst (update_state s))\<lparr>idr := idr s\<rparr> = s"
    by (simp add: update_state_def)
  have l: "\<forall>i < unat (ngpio s). bit (idr (fst (update_state s))) i = resolved s i"
    by (simp add: update_state_def idr_update_from)
  have c: "(\<forall>i < unat (ngpio s). bit (idr s) i = resolved s i) \<longrightarrow> fst (update_state s) = s"
    using update_state_fixed(1) [of s] by blast
  show ?thesis
    unfolding w' fst_conv using r f l c by simp
qed

text \<open>Offset \<open>0x100\<close> on the sample state.\<close>

theorem invalid_offset_access_witness:
  "\<not> valid_offset 0x100 \<and>
   stm32_gpio_read demo_state 0x100 = (demo_state, 0, [Bad_read 0x100]) \<and>
   (fst (stm32_gpio_write demo_state 0x100 7))\<lparr>idr := idr demo_state\<rparr> = demo_state \<and>
   hd (snd (stm32_gpio_write demo_state 0x100 7)) = Bad_write 0x100"
proof -
  have v: "\<not> valid_offset 0x100" by (simp add: valid_offset_def reg_offsets)
  note c = invalid_offset_access [OF v, of demo_state 7]
  have "hd (snd (stm32_gpio_write demo_state 0x100 7)) = Bad_write 0x100"
    using c by simp
  moreover have "stm32_gpio_read demo_state 0x100 = (demo_state, 0, [Bad_read 0x100])"
    using c by blast
  moreover have "(fst (stm32_gpio_write demo_state 0x100 7))\<lparr>idr := idr demo_state\<rparr> = demo_state"
    using c by blast
  ultimately show ?thesis using v by blast
qed

text \<open>
  The claim as first stated, that a write to an invalid offset changes no field, IDR
  included, fails on port A right after reset: PUPDR holds a pull-up for pin 13 and IDR
  is 0, and the write to offset \<open>0x100\<close> runs \<open>update_state\<close>, which sets IDR bit 13.
\<close>

theorem invalid_offset_write_changes_idr:
  "\<not> valid_offset 0x100 \<and>
   \<not> bit (idr after_reset_a) 13 \<and>
   bit (idr (fst (stm32_gpio_write after_reset_a 0x100 0))) 13"
proof -
  have v: "\<not> valid_offset 0x100" by (simp add: valid_offset_def reg_offsets)
  have w: "idr (fst (stm32_gpio_write after_reset_a 0x100 0)) =
      idr (fst (update_from 0 after_reset_a))"
    by (simp add: write_eq write_switch_def reg_offsets update_state_def)
  have n: "unat (ngpio after_reset_a) = 16"
    by (simp add: after_reset_a_eq fresh_instance_def)
  have r: "resolved after_reset_a 13"
    by (simp add: after_reset_a_eq fresh_instance_def spec_resolve_def spec_field_def)
  have z: "\<not> bit (idr after_reset_a) 13"
    by (simp add: after_reset_a_eq fresh_instance_def)
  show ?thesis
    using v z r by (simp add: w idr_update_from n)
qed

subsection \<open>Reset\<close>

text \<open>
  What \<open>stm32_gpio_reset\<close> does establish on port A, from every prior state: a read of
  PUPDR returns \<open>0x64000000\<close>, a read of ODR returns 0 (the port-specific value stored
  first is overwritten) and a read of IDR returns 0. The resolution engine is not run:
  IDR is 0 although pin 13, pulled up, resolves to 1 unless it is an output.
\<close>

lemma reset_port_a_other_registers:
  "port s = STM32_GPIO_PORT_A \<Longrightarrow>
   fst (snd (stm32_gpio_read (stm32_gpio_reset s) STM32_GPIO_REG_PUPDR)) = 0x64000000 \<and>
   fst (snd (stm32_gpio_read (stm32_gpio_reset s) STM32_GPIO_REG_ODR)) = 0 \<and>
   fst (snd (stm32_gpio_read (stm32_gpio_reset s) STM32_GPIO_REG_IDR)) = 0 \<and>
   idr (stm32_gpio_reset s) = 0 \<and>
   (spec_field (moder s) 13 \<noteq> 1 \<longrightarrow> resolved (stm32_gpio_reset s) 13)"
  by (simp add: stm32_gpio_reset_def stm32_gpio_read_def reg_offsets spec_resolve_def
      spec_field_def)

text \<open>
  Claim C5. For every port-A instance and every prior state, after \<open>stm32_gpio_reset\<close> a
  read of MODER returns 0, a read of PUPDR returns \<open>0x64000000\<close>, a read of ODR returns 0
  and a read of IDR returns 0. The code does not do this for MODER: \<open>stm32_gpio_reset\<close>
  assigns every register but \<open>moder\<close>, and stores its port-specific values into \<open>odr\<close>,
  which it overwrites with 0 a few lines later. On a port-A instance whose pin 0 was
  configured as an output, the read of MODER after reset returns 1.
\<close>

theorem reset_keeps_moder:
  "port dirty_port_a = STM32_GPIO_PORT_A \<and>
   moder dirty_port_a = 1 \<and>
   fst (snd (stm32_gpio_read (stm32_gpio_reset dirty_port_a) STM32_GPIO_REG_MODER)) = 1"
  by (simp add: dirty_port_a_def fresh_instance_def stm32_gpio_reset_def stm32_gpio_read_def
      reg_offsets)

subsection \<open>The assertion of the external-signal entry point\<close>

text \<open>
  Claim C6, as amended. On every instance whose pin count \<open>ngpio\<close> is at most 16, the
  ceiling of the specification, \<open>stm32_gpio_set\<close> fails its assertion exactly when the
  pin is outside \<open>0..15\<close>, the range of the constant \<open>STM32_GPIO_NPINS\<close>, and not when it is
  outside \<open>0..ngpio - 1\<close> (the two ranges are the same for the default \<open>ngpio = 16\<close>). For
  every pin inside \<open>0..15\<close> it does not fail, and it writes the drive mask at that pin
  index and at no other.
\<close>

theorem set_asserts_outside_npins:
  "unat (ngpio s) \<le> 16 \<Longrightarrow>
   (stm32_gpio_set s line val = None) = (line < 0 \<or> STM32_GPIO_NPINS \<le> line) \<and>
   STM32_GPIO_NPINS = 16 \<and>
   (0 \<le> line \<and> line < 16 \<longrightarrow>
      (\<forall>j. bit (in_mask (fst (the (stm32_gpio_set s line val)))) j =
           (if j = nat line then 0 \<le> val else bit (in_mask s) j)))"
  by (auto simp add: set_eq STM32_GPIO_NPINS_def fields_update_state drive_def Let_def
      deposit32_bit)

text \<open>Pins 16 and 15 on the bank of eight pins.\<close>

theorem set_asserts_outside_npins_witness:
  "unat (ngpio small_bank) \<le> 16 \<and>
   stm32_gpio_set small_bank 16 1 = None \<and> stm32_gpio_set small_bank 15 1 \<noteq> None \<and>
   bit (in_mask (fst (the (stm32_gpio_set small_bank 15 1)))) 15"
proof -
  have n: "unat (ngpio small_bank) \<le> 16"
    by (simp add: small_bank_def fresh_instance_def)
  have "stm32_gpio_set small_bank 16 1 = None"
    using set_asserts_outside_npins [OF n, of 16 1, THEN conjunct1]
    by (simp add: STM32_GPIO_NPINS_def)
  moreover have "stm32_gpio_set small_bank 15 1 \<noteq> None"
    using set_asserts_outside_npins [OF n, of 15 1, THEN conjunct1]
    by (simp add: STM32_GPIO_NPINS_def)
  moreover have "bit (in_mask (fst (the (stm32_gpio_set small_bank 15 1)))) (nat 15)"
    using set_asserts_outside_npins [OF n, of 15 1, THEN conjunct2, THEN conjunct2]
    by simp
  ultimately show ?thesis using n by simp
qed

text \<open>
  The claim as first stated, with the range \<open>0..ngpio - 1\<close>, fails on a bank of eight
  pins: pin 10 is outside \<open>0..7\<close> and the call returns.
\<close>

theorem set_accepts_pin_beyond_ngpio:
  "unat (ngpio small_bank) = 8 \<and> stm32_gpio_set small_bank 10 1 \<noteq> None"
  by (simp add: small_bank_def fresh_instance_def set_eq)

subsection \<open>Writing ODR twice\<close>

text \<open>
  Claim C7. For every state and every value, writing the value to the ODR offset twice
  in a row produces at most one output-changed notification per pin, on the first write
  if at all and never on the second, and the second write leaves IDR (indeed the whole
  state) as the first write left it.
\<close>

theorem odr_write_twice:
  "let r1 = stm32_gpio_write s STM32_GPIO_REG_ODR val;
       r2 = stm32_gpio_write (fst r1) STM32_GPIO_REG_ODR val
   in irq_count i (snd r1) \<le> 1 \<and> irq_count i (snd r2) = 0 \<and>
      idr (fst r2) = idr (fst r1) \<and> fst r2 = fst r1"
proof -
  let ?s0 = "s\<lparr>odr := ucast val\<rparr>"
  let ?s1 = "fst (update_state ?s0)"
  have w1: "stm32_gpio_write s STM32_GPIO_REG_ODR val = (?s1, snd (update_state ?s0))"
    by (simp add: write_eq write_switch_def reg_offsets)
  have "odr ?s1 = ucast val" by (simp add: fields_update_state)
  then have "?s1\<lparr>odr := ucast val\<rparr> = ?s1"
    by (metis STM32GPIOState.surjective STM32GPIOState.update_convs(6))
  then have w2: "stm32_gpio_write ?s1 STM32_GPIO_REG_ODR val =
             (fst (update_state ?s1), snd (update_state ?s1))"
    by (simp add: write_eq write_switch_def reg_offsets)
  have c: "bit (idr ?s1) j = resolved ?s1 j" if "j < unat (ngpio ?s1)" for j
    using update_state_consistent [of j ?s0] that by (simp add: fields_update_state)
  have fp: "fst (update_state ?s1) = ?s1" and z: "irq_count i (snd (update_state ?s1)) = 0"
    using update_state_fixed(1) [of ?s1] update_state_fixed(2) [of ?s1 i] c by blast+
  have le: "irq_count i (snd (update_state ?s0)) \<le> 1"
    using irq_count_update_from [of i 0 ?s0] by (simp add: update_state_def)
  show ?thesis
    unfolding Let_def w1 fst_conv snd_conv w2 using fp z le by simp
qed

text \<open>Writing 1 twice to the ODR of the sample state, whose pin 0 is an output.\<close>

theorem odr_write_twice_witness:
  "irq_count 0 (snd (stm32_gpio_write (fst (stm32_gpio_write demo_state STM32_GPIO_REG_ODR 1))
      STM32_GPIO_REG_ODR 1)) = 0 \<and>
   fst (stm32_gpio_write (fst (stm32_gpio_write demo_state STM32_GPIO_REG_ODR 1))
      STM32_GPIO_REG_ODR 1) = fst (stm32_gpio_write demo_state STM32_GPIO_REG_ODR 1)"
  using odr_write_twice [of demo_state 1 0] by (simp add: Let_def)

subsection \<open>Writes to the read-only IDR offset\<close>

text \<open>
  Claim C8. For every state and every two values, writing the one or the other to the IDR
  offset gives the same final state and the same events: those of one run of the
  resolution engine on the state as it was.
\<close>

theorem idr_write_value_ignored:
  "stm32_gpio_write s STM32_GPIO_REG_IDR v1 = stm32_gpio_write s STM32_GPIO_REG_IDR v2 \<and>
   stm32_gpio_write s STM32_GPIO_REG_IDR v1 = update_state s"
  by (simp add: stm32_gpio_write_def write_switch_def reg_offsets)

theorem idr_write_value_ignored_witness:
  "stm32_gpio_write demo_state STM32_GPIO_REG_IDR 0 =
   stm32_gpio_write demo_state STM32_GPIO_REG_IDR 0xFFFFFFFF"
  using idr_write_value_ignored [of demo_state 0 "0xFFFFFFFF"] by simp

subsection \<open>The frame of the resolution engine\<close>

text \<open>
  Claim C9. A run of the resolution engine changes IDR only: MODER, OTYPER, OSPEEDR,
  PUPDR, ODR, LCKR, AFRL, AFRH, \<open>in\<close> and \<open>in_mask\<close> are after the run what they were
  before.
\<close>

theorem update_state_frame:
  "moder (fst (update_state s)) = moder s \<and>
   otyper (fst (update_state s)) = otyper s \<and>
   ospeedr (fst (update_state s)) = ospeedr s \<and>
   pupdr (fst (update_state s)) = pupdr s \<and>
   odr (fst (update_state s)) = odr s \<and>
   lckr (fst (update_state s)) = lckr s \<and>
   aflr (fst (update_state s)) = aflr s \<and>
   afhr (fst (update_state s)) = afhr s \<and>
   in_val (fst (update_state s)) = in_val s \<and>
   in_mask (fst (update_state s)) = in_mask s"
  by (simp add: fields_update_state)

theorem update_state_frame_witness:
  "moder (fst (update_state demo_state)) = 1 \<and> odr (fst (update_state demo_state)) = 1"
  using update_state_frame [of demo_state]
  by (simp add: demo_state_def fresh_instance_def)

subsection \<open>Every 2-bit field value resolves\<close>

text \<open>
  Claim C10. For every pin \<open>i < ngpio\<close> that is not driven from outside and whose MODER
  field is any value other than OUTPUT (alternate function and analog included), the
  resolved level is 1 exactly when the PUPDR field is 1, \<open>PULL_UP\<close>; the reserved PUPDR
  value 3 resolves to 0 as NONE and \<open>PULL_DOWN\<close> do. No diagnostic and no notification is
  emitted for such a pin.
\<close>

theorem floating_pin_level:
  "i < unat (ngpio s) \<Longrightarrow> \<not> bit (in_mask s) i \<Longrightarrow>
   int (spec_field (moder s) i) \<noteq> STM32_GPIO_MODE_OUTPUT \<Longrightarrow>
   bit (idr (fst (update_state s))) i = (int (spec_field (pupdr s) i) = STM32_GPIO_PULL_UP) \<and>
   (spec_field (pupdr s) i = 3 \<longrightarrow> \<not> bit (idr (fst (update_state s))) i) \<and>
   Short_circuit i \<notin> set (snd (update_state s)) \<and>
   (\<forall>b. Set_irq i b \<notin> set (snd (update_state s)))"
proof -
  assume i: "i < unat (ngpio s)" and m: "\<not> bit (in_mask s) i"
    and o: "int (spec_field (moder s) i) \<noteq> STM32_GPIO_MODE_OUTPUT"
  from o have o': "spec_field (moder s) i \<noteq> 1" by (simp add: STM32_GPIO_MODE_OUTPUT_def)
  have lvl: "bit (idr (fst (update_state s))) i = (spec_field (pupdr s) i = 1)"
    using i m o' by (simp add: update_state_def idr_update_from spec_resolve_def)
  have ev: "e \<in> set (snd (update_state s)) \<Longrightarrow>
      e \<noteq> Short_circuit i \<and> (\<forall>b. e \<noteq> Set_irq i b)" for e
    using events_update_from [of e 0 s] o' by (auto simp add: update_state_def)
  show ?thesis
    using lvl ev by (auto simp add: STM32_GPIO_PULL_UP_def)
qed

text \<open>Pin 0 in analog mode with the reserved pull value 3.\<close>

theorem floating_pin_level_witness:
  "(0::nat) < unat (ngpio analog_state) \<and> \<not> bit (in_mask analog_state) 0 \<and>
   spec_field (moder analog_state) 0 = 3 \<and> spec_field (pupdr analog_state) 0 = 3 \<and>
   \<not> bit (idr (fst (update_state analog_state))) 0"
  using floating_pin_level [of 0 analog_state]
  by (simp add: analog_state_def fresh_instance_def spec_field_def STM32_GPIO_MODE_OUTPUT_def
      STM32_GPIO_PULL_UP_def)

end
